theory Spec2Isabelle
  imports Main
begin

section \<open>The session coordinator of camera_p.cc\<close>

text \<open>
  \<^verbatim>\<open>CameraPrivate\<close> owns four collaborators (\<^verbatim>\<open>Device\<close>, \<^verbatim>\<open>Channels\<close>, \<^verbatim>\<open>Motions\<close>,
  \<^verbatim>\<open>Streams\<close>) and a few caches. Its member functions are embedded as functions on a
  record of that state. Every mutating call made on a collaborator is appended to the
  field \<open>calls\<close>, so that the order and the number of such calls can be stated; calls
  that only return a value (\<^verbatim>\<open>IsOpened\<close>, \<^verbatim>\<open>IsHidTracking\<close>, \<^verbatim>\<open>GetCameraCalibration\<close>,
  ...) are not recorded. Log output is not modelled.
\<close>

subsection \<open>Types declared outside this file\<close>

text \<open>The three error codes that \<^verbatim>\<open>Open\<close> names.\<close>

datatype ErrorCode = SUCCESS | ERROR_FAILURE | ERROR_CAMERA_OPEN_FAILED

text \<open>
  Open parameters, stream modes and image types are only handed on to the collaborators;
  each is an opaque tag here.
\<close>

datatype OpenParams = OpenParams nat
datatype StreamMode = StreamMode nat
datatype ImageType = ImageType nat

text \<open>
  The field tags that the \<^verbatim>\<open>switch\<close> of \<^verbatim>\<open>GetDescriptor\<close> names. A C++ enum class can hold
  any value of its underlying type: \<open>Descriptor_other n\<close> stands for every tag that is
  none of the eight (the \<^verbatim>\<open>default\<close> label).
\<close>

datatype Descriptor =
    DEVICE_NAME | SERIAL_NUMBER | FIRMWARE_VERSION | HARDWARE_VERSION | SPEC_VERSION
  | LENS_TYPE | IMU_TYPE | NOMINAL_BASELINE | Descriptor_other nat

text \<open>
  Versions and types are opaque payloads; their \<^verbatim>\<open>to_string\<close> methods are not in this
  file and are parameters of \<^verbatim>\<open>GetDescriptor\<close> below.
\<close>

datatype Version = Version "nat list"
datatype HardwareVersion = HardwareVersion "nat list"
datatype Type = Type "nat list"

record Descriptors =
  name :: string
  serial_number :: string
  firmware_version :: Version
  hardware_version :: HardwareVersion
  spec_version :: Version
  lens_type :: Type
  imu_type :: Type
  nominal_baseline :: nat

text \<open>What \<^verbatim>\<open>std::make_shared<device::Descriptors>()\<close> holds before anything is read.\<close>

definition Descriptors_default :: Descriptors where
  "Descriptors_default =
     \<lparr>name = [], serial_number = [], firmware_version = Version [],
      hardware_version = HardwareVersion [], spec_version = Version [],
      lens_type = Type [], imu_type = Type [], nominal_baseline = 0\<rparr>"

text \<open>
  Calibration scalars (\<open>'a\<close>) are copied and never computed with. The C arrays are
  lists; the declaration fixes their lengths (9 for a camera matrix, at least 5 for a
  distortion vector).
\<close>

record 'a CameraCalibration =
  InImgWidth :: nat
  InImgHeight :: nat
  CamMat1 :: "'a list"
  CamMat2 :: "'a list"
  CamDist1 :: "'a list"
  CamDist2 :: "'a list"

record 'a CameraIntrinsics =
  width :: nat
  height :: nat
  fx :: 'a
  fy :: 'a
  cx :: 'a
  cy :: 'a
  coeffs :: "'a list"

record 'a StreamIntrinsics =
  left :: "'a CameraIntrinsics"
  right :: "'a CameraIntrinsics"

type_synonym 'a ImuIntrinsics = "'a list"
type_synonym 'a MotionExtrinsics = "'a list"

record 'a MotionIntrinsics =
  accel :: "'a ImuIntrinsics"
  gyro :: "'a ImuIntrinsics"

record 'a imu_params_t =
  ok :: bool
  in_accel :: "'a ImuIntrinsics"
  in_gyro :: "'a ImuIntrinsics"
  ex_left_to_imu :: "'a MotionExtrinsics"

subsection \<open>The collaborators\<close>

text \<open>
  What the hardware answers: whether the transport opens for given parameters, the
  calibration it holds per stream mode, whether the side channel is there
  (\<^verbatim>\<open>IsAvaliable\<close>) and can track (\<^verbatim>\<open>IsHidAvaliable\<close>), whether a request to start
  tracking succeeds, and the outcome of the combined read of the flash.
\<close>

record 'a Hardware =
  hw_open_ok :: "OpenParams \<Rightarrow> bool"
  hw_calibration :: "StreamMode \<Rightarrow> 'a CameraCalibration"
  hw_avaliable :: bool
  hw_hid_avaliable :: bool
  hw_start_ok :: bool
  hw_files_ok :: bool
  hw_files_descriptors :: Descriptors
  hw_files_imu_params :: "'a imu_params_t"

record 'a Device =
  dev_hw :: "'a Hardware"
  opened :: bool

text \<open>The bound member functions that \<^verbatim>\<open>StartDataTracking\<close> registers.\<close>

datatype Callback = Motions_OnImuDataCallback | Streams_OnImageInfoCallback

record 'a Channels =
  ch_hw :: "'a Hardware"
  hid_tracking :: bool
  imu_data_callback :: "Callback option"
  img_info_callback :: "Callback option"

record Motions =
  motion_datas_enabled :: bool
  motion_datas_max_size :: nat

record Streams =
  image_info_enabled :: bool
  image_info_sync :: bool
  stream_data_enabled :: "ImageType list"

text \<open>Modelled from the spec: \<^verbatim>\<open>Device::Device\<close>, a transport that is not opened.\<close>

definition Device_new :: "'a Hardware \<Rightarrow> 'a Device" where
  "Device_new hw = \<lparr>dev_hw = hw, opened = False\<rparr>"

text \<open>Modelled from the spec: \<^verbatim>\<open>Device::IsOpened\<close>.\<close>

definition Device_IsOpened :: "'a Device \<Rightarrow> bool" where
  "Device_IsOpened d = opened d"

text \<open>
  Modelled from the spec: \<^verbatim>\<open>Device::Open\<close>, \<^verbatim>\<open>open(params) -> bool\<close>. The device is opened
  from then on exactly when the hardware accepts the parameters.
\<close>

definition Device_Open :: "OpenParams \<Rightarrow> 'a Device \<Rightarrow> bool \<times> 'a Device" where
  "Device_Open params d =
     (if hw_open_ok (dev_hw d) params then (True, d\<lparr>opened := True\<rparr>) else (False, d))"

text \<open>Modelled from the spec: \<^verbatim>\<open>Device::Close\<close>.\<close>

definition Device_Close :: "'a Device \<Rightarrow> 'a Device" where
  "Device_Close d = d\<lparr>opened := False\<rparr>"

text \<open>Modelled from the spec: \<^verbatim>\<open>Device::GetCameraCalibration\<close>, a fresh fetch.\<close>

definition Device_GetCameraCalibration :: "StreamMode \<Rightarrow> 'a Device \<Rightarrow> 'a CameraCalibration" where
  "Device_GetCameraCalibration stream_mode d = hw_calibration (dev_hw d) stream_mode"

text \<open>
  Modelled from the spec: \<^verbatim>\<open>Channels::Channels\<close>. A new side channel tracks nothing and
  has no callback registered.
\<close>

definition Channels_new :: "'a Hardware \<Rightarrow> 'a Channels" where
  "Channels_new hw =
     \<lparr>ch_hw = hw, hid_tracking = False, imu_data_callback = None, img_info_callback = None\<rparr>"

text \<open>Modelled from the spec: the availability and tracking queries of \<^verbatim>\<open>Channels\<close>.\<close>

definition IsAvaliable :: "'a Channels \<Rightarrow> bool" where
  "IsAvaliable c = hw_avaliable (ch_hw c)"

definition IsHidAvaliable :: "'a Channels \<Rightarrow> bool" where
  "IsHidAvaliable c = hw_hid_avaliable (ch_hw c)"

definition IsHidTracking :: "'a Channels \<Rightarrow> bool" where
  "IsHidTracking c = hid_tracking c"

text \<open>
  Modelled from the spec: callback registration of \<^verbatim>\<open>Channels\<close>, a single slot per
  kind; the last registration wins.
\<close>

definition SetImuDataCallback :: "Callback \<Rightarrow> 'a Channels \<Rightarrow> 'a Channels" where
  "SetImuDataCallback cb c = c\<lparr>imu_data_callback := Some cb\<rparr>"

definition SetImgInfoCallback :: "Callback \<Rightarrow> 'a Channels \<Rightarrow> 'a Channels" where
  "SetImgInfoCallback cb c = c\<lparr>img_info_callback := Some cb\<rparr>"

text \<open>
  Modelled from the spec: \<^verbatim>\<open>Channels::StartHidTracking\<close> and \<^verbatim>\<open>Channels::StopHidTracking\<close>.
  Starting returns the hardware's answer, and tracking is active from then on exactly
  when that answer is success; stopping ends it.
\<close>

definition StartHidTracking :: "'a Channels \<Rightarrow> bool \<times> 'a Channels" where
  "StartHidTracking c = (hw_start_ok (ch_hw c), c\<lparr>hid_tracking := hw_start_ok (ch_hw c)\<rparr>)"

definition StopHidTracking :: "'a Channels \<Rightarrow> 'a Channels" where
  "StopHidTracking c = c\<lparr>hid_tracking := False\<rparr>"

text \<open>
  Modelled from the spec: \<^verbatim>\<open>Channels::GetFiles\<close>, the combined read. It returns the success
  flag and leaves in the two buffers what the hardware delivered.
\<close>

definition GetFiles :: "'a Channels \<Rightarrow> bool \<times> Descriptors \<times> 'a imu_params_t" where
  "GetFiles c =
     (hw_files_ok (ch_hw c), hw_files_descriptors (ch_hw c), hw_files_imu_params (ch_hw c))"

text \<open>Modelled from the spec: the feature toggles of \<^verbatim>\<open>Motions\<close>, disabled at first.\<close>

definition Motions_new :: Motions where
  "Motions_new = \<lparr>motion_datas_enabled = False, motion_datas_max_size = 0\<rparr>"

definition IsMotionDatasEnabled :: "Motions \<Rightarrow> bool" where
  "IsMotionDatasEnabled m = motion_datas_enabled m"

definition Motions_EnableMotionDatas :: "nat \<Rightarrow> Motions \<Rightarrow> Motions" where
  "Motions_EnableMotionDatas max_size m =
     m\<lparr>motion_datas_enabled := True, motion_datas_max_size := max_size\<rparr>"

text \<open>Modelled from the spec: the feature toggles of \<^verbatim>\<open>Streams\<close>, disabled at first.\<close>

definition Streams_new :: Streams where
  "Streams_new = \<lparr>image_info_enabled = False, image_info_sync = False, stream_data_enabled = []\<rparr>"

definition IsImageInfoEnabled :: "Streams \<Rightarrow> bool" where
  "IsImageInfoEnabled st = image_info_enabled st"

definition Streams_EnableImageInfo :: "bool \<Rightarrow> Streams \<Rightarrow> Streams" where
  "Streams_EnableImageInfo sync st = st\<lparr>image_info_enabled := True, image_info_sync := sync\<rparr>"

definition Streams_EnableStreamData :: "ImageType \<Rightarrow> Streams \<Rightarrow> Streams" where
  "Streams_EnableStreamData t st = st\<lparr>stream_data_enabled := t # stream_data_enabled st\<rparr>"

subsection \<open>The state of CameraPrivate\<close>

text \<open>The mutating calls made on the collaborators, in the order they are made.\<close>

datatype Call =
    Call_Device_Open OpenParams
  | Call_Device_Close
  | Call_GetFiles
  | Call_SetImuDataCallback
  | Call_SetImgInfoCallback
  | Call_StartHidTracking
  | Call_StopHidTracking
  | Call_Motions_SetMotionIntrinsics
  | Call_Motions_EnableMotionDatas nat
  | Call_Streams_EnableImageInfo bool
  | Call_Streams_EnableStreamData ImageType
  | Call_Streams_OnCameraOpen
  | Call_Streams_OnCameraClose

record 'a CameraPrivate =
  device :: "'a Device"
  channels :: "'a Channels"
  motions :: Motions
  streams :: Streams
  descriptors :: "Descriptors option"
  stream_intrinsics :: "'a StreamIntrinsics option"
  motion_intrinsics :: "'a MotionIntrinsics option"
  motion_extrinsics :: "'a MotionExtrinsics option"
  calls :: "Call list"

definition called :: "Call \<Rightarrow> 'a CameraPrivate \<Rightarrow> 'a CameraPrivate" where
  "called c s = s\<lparr>calls := calls s @ [c]\<rparr>"

subsection \<open>Tracking\<close>

definition StartDataTracking :: "'a CameraPrivate \<Rightarrow> bool \<times> 'a CameraPrivate" where
  "StartDataTracking s =
     (if \<not> IsMotionDatasEnabled (motions s) \<and> \<not> IsImageInfoEnabled (streams s) then (False, s)
      else
        let s1 = (if IsMotionDatasEnabled (motions s)
                  then called Call_SetImuDataCallback
                         (s\<lparr>channels := SetImuDataCallback Motions_OnImuDataCallback (channels s)\<rparr>)
                  else s);
            s2 = (if IsImageInfoEnabled (streams s1)
                  then called Call_SetImgInfoCallback
                         (s1\<lparr>channels := SetImgInfoCallback Streams_OnImageInfoCallback (channels s1)\<rparr>)
                  else s1)
        in if IsHidTracking (channels s2) then (True, s2)
           else if \<not> IsHidAvaliable (channels s2) then (False, s2)
           else (fst (StartHidTracking (channels s2)),
                 called Call_StartHidTracking (s2\<lparr>channels := snd (StartHidTracking (channels s2))\<rparr>)))"

definition StopDataTracking :: "'a CameraPrivate \<Rightarrow> 'a CameraPrivate" where
  "StopDataTracking s =
     (if IsHidTracking (channels s)
      then called Call_StopHidTracking (s\<lparr>channels := StopHidTracking (channels s)\<rparr>)
      else s)"

subsection \<open>Construction and the flash read\<close>

definition SetMotionIntrinsics :: "'a MotionIntrinsics \<Rightarrow> 'a CameraPrivate \<Rightarrow> 'a CameraPrivate" where
  "SetMotionIntrinsics i s = called Call_Motions_SetMotionIntrinsics (s\<lparr>motion_intrinsics := Some i\<rparr>)"

definition SetMotionExtrinsics :: "'a MotionExtrinsics \<Rightarrow> 'a CameraPrivate \<Rightarrow> 'a CameraPrivate" where
  "SetMotionExtrinsics e s = s\<lparr>motion_extrinsics := Some e\<rparr>"

text \<open>
  \<^verbatim>\<open>descriptors_\<close> is allocated before the read and serves as its buffer; neither early
  return resets it.
\<close>

definition ReadDeviceFlash :: "'a CameraPrivate \<Rightarrow> 'a CameraPrivate" where
  "ReadDeviceFlash s =
     (if \<not> IsAvaliable (channels s) then s
      else
        let s1 = s\<lparr>descriptors := Some Descriptors_default\<rparr>;
            (read_ok, d, imu_params) = GetFiles (channels s1);
            s2 = called Call_GetFiles (s1\<lparr>descriptors := Some d\<rparr>)
        in if \<not> read_ok then s2
           else if ok imu_params
             then SetMotionExtrinsics (ex_left_to_imu imu_params)
                    (SetMotionIntrinsics \<lparr>accel = in_accel imu_params, gyro = in_gyro imu_params\<rparr> s2)
             else s2)"

definition Init :: "'a Hardware \<Rightarrow> 'a Device \<Rightarrow> 'a CameraPrivate" where
  "Init hw dev =
     (let s = \<lparr>device = dev, channels = Channels_new hw, motions = Motions_new,
                streams = Streams_new, descriptors = None, stream_intrinsics = None,
                motion_intrinsics = None, motion_extrinsics = None, calls = []\<rparr>
      in if IsAvaliable (channels s) then ReadDeviceFlash s else s)"

text \<open>The constructor: \<^verbatim>\<open>device_(std::make_shared<Device>())\<close>, then \<^verbatim>\<open>Init()\<close>.\<close>

definition CameraPrivate_new :: "'a Hardware \<Rightarrow> 'a CameraPrivate" where
  "CameraPrivate_new hw = Init hw (Device_new hw)"

subsection \<open>Open and Close\<close>

definition IsOpened :: "'a CameraPrivate \<Rightarrow> bool" where
  "IsOpened s = Device_IsOpened (device s)"

definition Open :: "OpenParams \<Rightarrow> 'a CameraPrivate \<Rightarrow> ErrorCode \<times> 'a CameraPrivate" where
  "Open params s =
     (if IsOpened s then (SUCCESS, s)
      else
        let (open_ok, d) = Device_Open params (device s);
            s1 = called (Call_Device_Open params) (s\<lparr>device := d\<rparr>)
        in if \<not> open_ok then (ERROR_FAILURE, s1)
           else if open_ok
             then (SUCCESS, called Call_Streams_OnCameraOpen (snd (StartDataTracking s1)))
             else (ERROR_CAMERA_OPEN_FAILED, s1))"

definition Close :: "'a CameraPrivate \<Rightarrow> 'a CameraPrivate" where
  "Close s =
     (if \<not> IsOpened s then s
      else
        let s1 = StopDataTracking s;
            s2 = called Call_Streams_OnCameraClose s1
        in called Call_Device_Close (s2\<lparr>device := Device_Close (device s2)\<rparr>))"

text \<open>The destructor: \<^verbatim>\<open>Close()\<close>, then the device handle is dropped.\<close>

definition CameraPrivate_delete :: "'a CameraPrivate \<Rightarrow> 'a CameraPrivate" where
  "CameraPrivate_delete s = Close s"

subsection \<open>The feature toggles\<close>

definition EnableImageInfo :: "bool \<Rightarrow> 'a CameraPrivate \<Rightarrow> 'a CameraPrivate" where
  "EnableImageInfo sync s =
     snd (StartDataTracking
            (called (Call_Streams_EnableImageInfo sync)
               (s\<lparr>streams := Streams_EnableImageInfo sync (streams s)\<rparr>)))"

definition EnableStreamData :: "ImageType \<Rightarrow> 'a CameraPrivate \<Rightarrow> 'a CameraPrivate" where
  "EnableStreamData t s =
     called (Call_Streams_EnableStreamData t) (s\<lparr>streams := Streams_EnableStreamData t (streams s)\<rparr>)"

definition EnableMotionDatas :: "nat \<Rightarrow> 'a CameraPrivate \<Rightarrow> 'a CameraPrivate" where
  "EnableMotionDatas max_size s =
     snd (StartDataTracking
            (called (Call_Motions_EnableMotionDatas max_size)
               (s\<lparr>motions := Motions_EnableMotionDatas max_size (motions s)\<rparr>)))"

subsection \<open>Descriptors\<close>

text \<open>\<^verbatim>\<open>std::to_string\<close> on an unsigned value: its decimal digits.\<close>

function to_string :: "nat \<Rightarrow> string" where
  "to_string n =
     (if n < 10 then [''0123456789'' ! n]
      else to_string (n div 10) @ [''0123456789'' ! (n mod 10)])"
  by pat_completeness auto
termination
  by (relation "measure id") auto

declare to_string.simps [simp del]

text \<open>The \<^verbatim>\<open>to_string\<close> methods of \<^verbatim>\<open>Version\<close>, \<^verbatim>\<open>HardwareVersion\<close> and \<^verbatim>\<open>Type\<close>.\<close>

record Formatters =
  Version_to_string :: "Version \<Rightarrow> string"
  HardwareVersion_to_string :: "HardwareVersion \<Rightarrow> string"
  Type_to_string :: "Type \<Rightarrow> string"

definition GetDescriptor :: "Formatters \<Rightarrow> 'a CameraPrivate \<Rightarrow> Descriptor \<Rightarrow> string" where
  "GetDescriptor f s desc =
     (case descriptors s of
        None \<Rightarrow> []
      | Some d \<Rightarrow>
          (case desc of
             DEVICE_NAME \<Rightarrow> name d
           | SERIAL_NUMBER \<Rightarrow> serial_number d
           | FIRMWARE_VERSION \<Rightarrow> Version_to_string f (firmware_version d)
           | HARDWARE_VERSION \<Rightarrow> HardwareVersion_to_string f (hardware_version d)
           | SPEC_VERSION \<Rightarrow> Version_to_string f (spec_version d)
           | LENS_TYPE \<Rightarrow> Type_to_string f (lens_type d)
           | IMU_TYPE \<Rightarrow> Type_to_string f (imu_type d)
           | NOMINAL_BASELINE \<Rightarrow> to_string (nominal_baseline d)
           | Descriptor_other n \<Rightarrow> []))"

subsection \<open>Stream intrinsics\<close>

text \<open>What \<^verbatim>\<open>std::make_shared<StreamIntrinsics>()\<close> holds: every member zero.\<close>

definition CameraIntrinsics_zero :: "'a::zero CameraIntrinsics" where
  "CameraIntrinsics_zero =
     \<lparr>width = 0, height = 0, fx = 0, fy = 0, cx = 0, cy = 0, coeffs = replicate 5 0\<rparr>"

definition StreamIntrinsics_zero :: "'a::zero StreamIntrinsics" where
  "StreamIntrinsics_zero = \<lparr>left = CameraIntrinsics_zero, right = CameraIntrinsics_zero\<rparr>"

text \<open>The loop \<^verbatim>\<open>for (int i = 0; i < 5; i++) dst[i] = src[i];\<close>\<close>

definition copy_coeffs :: "'a list \<Rightarrow> 'a list \<Rightarrow> 'a list" where
  "copy_coeffs src dst = fold (\<lambda>i d. d[i := src ! i]) [0..<5] dst"

definition GetCameraCalibration :: "StreamMode \<Rightarrow> 'a CameraPrivate \<Rightarrow> 'a CameraCalibration" where
  "GetCameraCalibration stream_mode s = Device_GetCameraCalibration stream_mode (device s)"

definition GetStreamIntrinsics ::
  "StreamMode \<Rightarrow> 'a::zero CameraPrivate \<Rightarrow> 'a StreamIntrinsics \<times> 'a CameraPrivate" where
  "GetStreamIntrinsics stream_mode s =
     (let si = (case stream_intrinsics s of None \<Rightarrow> StreamIntrinsics_zero | Some x \<Rightarrow> x);
          streamData = GetCameraCalibration stream_mode s;
          l = (left si)\<lparr>width := InImgWidth streamData div 2,
                         height := InImgHeight streamData,
                         fx := CamMat1 streamData ! 0,
                         fy := CamMat1 streamData ! 4,
                         cx := CamMat1 streamData ! 2,
                         cy := CamMat1 streamData ! 5,
                         coeffs := copy_coeffs (CamDist1 streamData) (coeffs (left si))\<rparr>;
          r = (right si)\<lparr>width := InImgWidth streamData div 2,
                          height := InImgHeight streamData,
                          fx := CamMat2 streamData ! 0,
                          fy := CamMat2 streamData ! 4,
                          cx := CamMat2 streamData ! 2,
                          cy := CamMat2 streamData ! 5,
                          coeffs := copy_coeffs (CamDist2 streamData) (coeffs (right si))\<rparr>;
          si' = \<lparr>left = l, right = r\<rparr>
      in (si', s\<lparr>stream_intrinsics := Some si'\<rparr>))"

text \<open>
  The arrays of a cached \<^verbatim>\<open>StreamIntrinsics\<close> have the length their declaration gives
  them, \<^verbatim>\<open>coeffs[5]\<close>.
\<close>

definition cache_arrays_ok :: "'a CameraPrivate \<Rightarrow> bool" where
  "cache_arrays_ok s =
     (case stream_intrinsics s of
        None \<Rightarrow> True
      | Some si \<Rightarrow> length (coeffs (left si)) = 5 \<and> length (coeffs (right si)) = 5)"

subsection \<open>Sequences of public operations\<close>

datatype Op =
    Op_Open OpenParams
  | Op_Close
  | Op_EnableImageInfo bool
  | Op_EnableMotionDatas nat
  | Op_EnableStreamData ImageType

fun perform :: "Op \<Rightarrow> 'a CameraPrivate \<Rightarrow> 'a CameraPrivate" where
  "perform (Op_Open params) s = snd (Open params s)"
| "perform Op_Close s = Close s"
| "perform (Op_EnableImageInfo sync) s = EnableImageInfo sync s"
| "perform (Op_EnableMotionDatas max_size) s = EnableMotionDatas max_size s"
| "perform (Op_EnableStreamData t) s = EnableStreamData t s"

text \<open>The state after construction on hardware \<open>hw\<close> and the operations \<open>ops\<close>, in order.\<close>

definition run :: "'a Hardware \<Rightarrow> Op list \<Rightarrow> 'a CameraPrivate" where
  "run hw ops = fold perform ops (CameraPrivate_new hw)"

text \<open>\<^verbatim>\<open>Open\<close> called once per element of a list of parameters.\<close>

fun Open_all :: "OpenParams list \<Rightarrow> 'a CameraPrivate \<Rightarrow> ErrorCode list \<times> 'a CameraPrivate" where
  "Open_all [] s = ([], s)"
| "Open_all (p # ps) s =
     (fst (Open p s) # fst (Open_all ps (snd (Open p s))), snd (Open_all ps (snd (Open p s))))"

text \<open>At least one of the two features that need the side channel is enabled.\<close>

definition tracking_wanted :: "'a CameraPrivate \<Rightarrow> bool" where
  "tracking_wanted s = (IsMotionDatasEnabled (motions s) \<or> IsImageInfoEnabled (streams s))"




subsection \<open>A concrete device\<close>

text \<open>
  Hardware to run the operations on: a stereo calibration with camera matrices of the
  form \<open>[fx, 0, cx, 0, fy, cy, 0, 0, 1]\<close>, descriptors, and a transport that rejects the
  parameters \<open>OpenParams 0\<close> and accepts all others. The three flags say whether the
  side channel is there, whether it accepts a request to start tracking, and whether the
  combined read succeeds; a failed read leaves the descriptor buffer as it was.
\<close>

definition calibration_example :: "int CameraCalibration" where
  "calibration_example =
     \<lparr>InImgWidth = 2560, InImgHeight = 720,
      CamMat1 = [1040, 0, 652, 0, 1041, 355, 0, 0, 1],
      CamMat2 = [1038, 0, 631, 0, 1039, 362, 0, 0, 1],
      CamDist1 = [11, 12, 13, 14, 15, 16, 17, 18],
      CamDist2 = [21, 22, 23, 24, 25, 26, 27, 28]\<rparr>"

definition descriptors_example :: Descriptors where
  "descriptors_example =
     \<lparr>name = ''MYNT-EYE-D1000'', serial_number = ''0386322C0009070E'',
      firmware_version = Version [1, 4], hardware_version = HardwareVersion [2, 0],
      spec_version = Version [1, 0], lens_type = Type [0], imu_type = Type [0],
      nominal_baseline = 120\<rparr>"

definition imu_params_example :: "int imu_params_t" where
  "imu_params_example = \<lparr>ok = True, in_accel = [1, 2], in_gyro = [3, 4], ex_left_to_imu = [5, 6]\<rparr>"

definition hw_example :: "bool \<Rightarrow> bool \<Rightarrow> bool \<Rightarrow> int Hardware" where
  "hw_example present start_ok files_ok =
     \<lparr>hw_open_ok = (\<lambda>p. p \<noteq> OpenParams 0),
      hw_calibration = (\<lambda>m. calibration_example),
      hw_avaliable = present,
      hw_hid_avaliable = present,
      hw_start_ok = start_ok,
      hw_files_ok = files_ok,
      hw_files_descriptors = (if files_ok then descriptors_example else Descriptors_default),
      hw_files_imu_params = imu_params_example\<rparr>"

definition formatters_example :: Formatters where
  "formatters_example =
     \<lparr>Version_to_string = (\<lambda>v. case v of Version xs \<Rightarrow> concat (map to_string xs)),
      HardwareVersion_to_string = (\<lambda>v. case v of HardwareVersion xs \<Rightarrow> concat (map to_string xs)),
      Type_to_string = (\<lambda>v. case v of Type xs \<Rightarrow> concat (map to_string xs))\<rparr>"

section \<open>What each operation does to the observable state\<close>

lemmas tracking_defs = StartDataTracking_def called_def IsMotionDatasEnabled_def
  IsImageInfoEnabled_def IsHidTracking_def IsHidAvaliable_def SetImuDataCallback_def
  SetImgInfoCallback_def StartHidTracking_def




lemma SDT_calls:
  "calls (snd (StartDataTracking s)) =
     calls s
     @ (if tracking_wanted s
        then (if IsMotionDatasEnabled (motions s) then [Call_SetImuDataCallback] else [])
             @ (if IsImageInfoEnabled (streams s) then [Call_SetImgInfoCallback] else [])
             @ (if \<not> IsHidTracking (channels s) \<and> IsHidAvaliable (channels s)
                then [Call_StartHidTracking] else [])
        else [])"
  by (simp add: tracking_defs tracking_wanted_def Let_def)

lemma SDT_device_irrelevant:
  "StartDataTracking (s\<lparr>device := d\<rparr>) =
     (fst (StartDataTracking s), (snd (StartDataTracking s))\<lparr>device := d\<rparr>)"
  by (simp add: tracking_defs Let_def)




lemma Close_obs:
  "opened (device (Close s)) = False"
  "motions (Close s) = motions s"
  "streams (Close s) = streams s"
  "ch_hw (channels (Close s)) = ch_hw (channels s)"
  "hid_tracking (channels (Close s)) = (hid_tracking (channels s) \<and> \<not> opened (device s))"
  by (simp_all add: Close_def IsOpened_def Device_IsOpened_def Device_Close_def
      StopDataTracking_def called_def StopHidTracking_def IsHidTracking_def Let_def)



lemma new_descriptors:
  "descriptors (CameraPrivate_new hw) =
     (if hw_avaliable hw then Some (hw_files_descriptors hw) else None)"
  by (simp add: CameraPrivate_new_def Init_def ReadDeviceFlash_def Let_def Channels_new_def
      GetFiles_def SetMotionExtrinsics_def SetMotionIntrinsics_def called_def IsAvaliable_def
      split: prod.splits)


lemma Close_not_opened: "\<not> IsOpened s \<Longrightarrow> Close s = s"
  by (simp add: Close_def)

lemma Close_calls:
  "IsOpened s \<Longrightarrow> calls (Close s) =
     calls s @ (if IsHidTracking (channels s) then [Call_StopHidTracking] else [])
     @ [Call_Streams_OnCameraClose, Call_Device_Close]"
  by (simp add: Close_def StopDataTracking_def called_def Let_def)

lemma Close_closed: "\<not> IsOpened (Close s)"
  by (simp add: IsOpened_def Device_IsOpened_def Close_obs)

subsection \<open>The tracking invariant, operation by operation\<close>



















subsection \<open>The coefficient loop\<close>

lemma upt_0_5: "[0..<5] = [0, 1, 2, 3, 4]"
  by code_simp

lemma copy_coeffs_take:
  assumes d: "length dst = 5" and s: "5 \<le> length src"
  shows "copy_coeffs src dst = take 5 src"
proof -
  from d obtain a b c e f where dst: "dst = [a, b, c, e, f]"
    by (auto simp add: length_Suc_conv eval_nat_numeral)
  have c: "copy_coeffs src dst = [src ! 0, src ! 1, src ! 2, src ! 3, src ! 4]"
    by (simp add: copy_coeffs_def upt_0_5 dst)
  have t: "take 5 src = [src ! 0, src ! 1, src ! 2, src ! 3, src ! 4]"
  proof (rule nth_equalityI)
    show "length (take 5 src) = length [src ! 0, src ! 1, src ! 2, src ! 3, src ! 4]"
      using s by simp
  next
    fix i
    assume "i < length (take 5 src)"
    then have "i < 5" by simp
    then have "i = 0 \<or> i = 1 \<or> i = 2 \<or> i = 3 \<or> i = 4" by arith
    then show "take 5 src ! i = [src ! 0, src ! 1, src ! 2, src ! 3, src ! 4] ! i"
      by auto
  qed
  show ?thesis by (simp add: c t)
qed

lemma zero_arrays: "length (coeffs (CameraIntrinsics_zero :: 'a::zero CameraIntrinsics)) = 5"
  by (simp add: CameraIntrinsics_zero_def)

section \<open>The claims\<close>

subsection \<open>C1: the six steps of StartDataTracking\<close>

text \<open>
  Claim C1. \<^verbatim>\<open>StartDataTracking\<close> follows the six-step algorithm, in every state of the
  feature toggles and of the side channel. (1) With neither inertial data nor image info
  enabled it returns false and leaves the whole state, the recorded calls included, as it
  was. Otherwise the calls it makes on the side channel are exactly: (2) the registration
  of the inertial-sample callback if inertial data is enabled, then (3) the registration
  of the image-info callback if image info is enabled, each routed to its collaborator,
  then a request to start tracking if and only if the channel is not tracking yet and
  reports itself available. It returns (4) true when the channel is already tracking,
  (5) false when it is not tracking and not available, and (6) otherwise the result of
  the start request, which is also whether the channel tracks afterwards.
\<close>

theorem StartDataTracking_six_steps:
  "(\<not> IsMotionDatasEnabled (motions s) \<and> \<not> IsImageInfoEnabled (streams s)
      \<longrightarrow> StartDataTracking s = (False, s))
   \<and> (IsMotionDatasEnabled (motions s) \<or> IsImageInfoEnabled (streams s)
      \<longrightarrow> calls (snd (StartDataTracking s)) =
            calls s
            @ (if IsMotionDatasEnabled (motions s) then [Call_SetImuDataCallback] else [])
            @ (if IsImageInfoEnabled (streams s) then [Call_SetImgInfoCallback] else [])
            @ (if \<not> IsHidTracking (channels s) \<and> IsHidAvaliable (channels s)
               then [Call_StartHidTracking] else []))
   \<and> (IsMotionDatasEnabled (motions s)
      \<longrightarrow> imu_data_callback (channels (snd (StartDataTracking s))) = Some Motions_OnImuDataCallback)
   \<and> (IsImageInfoEnabled (streams s)
      \<longrightarrow> img_info_callback (channels (snd (StartDataTracking s))) = Some Streams_OnImageInfoCallback)
   \<and> ((IsMotionDatasEnabled (motions s) \<or> IsImageInfoEnabled (streams s)) \<and> IsHidTracking (channels s)
      \<longrightarrow> fst (StartDataTracking s) = True)
   \<and> ((IsMotionDatasEnabled (motions s) \<or> IsImageInfoEnabled (streams s))
        \<and> \<not> IsHidTracking (channels s) \<and> \<not> IsHidAvaliable (channels s)
      \<longrightarrow> fst (StartDataTracking s) = False)
   \<and> ((IsMotionDatasEnabled (motions s) \<or> IsImageInfoEnabled (streams s))
        \<and> \<not> IsHidTracking (channels s) \<and> IsHidAvaliable (channels s)
      \<longrightarrow> fst (StartDataTracking s) = fst (StartHidTracking (channels s))
          \<and> IsHidTracking (channels (snd (StartDataTracking s))) = fst (StartHidTracking (channels s)))"
  by (simp add: tracking_defs Let_def)

text \<open>
  The four situations on the concrete device: nothing enabled after construction;
  inertial data enabled and the channel tracking; image info enabled on a device without
  side channel; image info enabled and tracking stopped by \<^verbatim>\<open>Close\<close>.
\<close>

theorem StartDataTracking_six_steps_witness:
  "\<not> IsMotionDatasEnabled (motions (run (hw_example True True True) []))
   \<and> \<not> IsImageInfoEnabled (streams (run (hw_example True True True) []))
   \<and> StartDataTracking (run (hw_example True True True) [])
       = (False, run (hw_example True True True) [])
   \<and> IsMotionDatasEnabled (motions (run (hw_example True True True) [Op_EnableMotionDatas 10]))
   \<and> IsHidTracking (channels (run (hw_example True True True) [Op_EnableMotionDatas 10]))
   \<and> fst (StartDataTracking (run (hw_example True True True) [Op_EnableMotionDatas 10]))
   \<and> calls (snd (StartDataTracking (run (hw_example True True True) [Op_EnableMotionDatas 10])))
       = calls (run (hw_example True True True) [Op_EnableMotionDatas 10]) @ [Call_SetImuDataCallback]
   \<and> IsImageInfoEnabled (streams (run (hw_example False True True) [Op_EnableImageInfo True]))
   \<and> \<not> IsHidTracking (channels (run (hw_example False True True) [Op_EnableImageInfo True]))
   \<and> \<not> IsHidAvaliable (channels (run (hw_example False True True) [Op_EnableImageInfo True]))
   \<and> \<not> fst (StartDataTracking (run (hw_example False True True) [Op_EnableImageInfo True]))
   \<and> calls (snd (StartDataTracking (run (hw_example False True True) [Op_EnableImageInfo True])))
       = calls (run (hw_example False True True) [Op_EnableImageInfo True]) @ [Call_SetImgInfoCallback]
   \<and> IsImageInfoEnabled (streams (run (hw_example True True True)
         [Op_EnableImageInfo True, Op_Open (OpenParams 1), Op_Close]))
   \<and> \<not> IsHidTracking (channels (run (hw_example True True True)
         [Op_EnableImageInfo True, Op_Open (OpenParams 1), Op_Close]))
   \<and> IsHidAvaliable (channels (run (hw_example True True True)
         [Op_EnableImageInfo True, Op_Open (OpenParams 1), Op_Close]))
   \<and> fst (StartDataTracking (run (hw_example True True True)
         [Op_EnableImageInfo True, Op_Open (OpenParams 1), Op_Close]))
   \<and> calls (snd (StartDataTracking (run (hw_example True True True)
         [Op_EnableImageInfo True, Op_Open (OpenParams 1), Op_Close])))
       = calls (run (hw_example True True True)
           [Op_EnableImageInfo True, Op_Open (OpenParams 1), Op_Close])
         @ [Call_SetImgInfoCallback, Call_StartHidTracking]"
proof -
  have a: "\<not> IsMotionDatasEnabled (motions (run (hw_example True True True) []))
      \<and> \<not> IsImageInfoEnabled (streams (run (hw_example True True True) []))"
    by code_simp
  have b: "IsMotionDatasEnabled (motions (run (hw_example True True True) [Op_EnableMotionDatas 10]))
      \<and> \<not> IsImageInfoEnabled (streams (run (hw_example True True True) [Op_EnableMotionDatas 10]))
      \<and> IsHidTracking (channels (run (hw_example True True True) [Op_EnableMotionDatas 10]))"
    by code_simp
  have c: "IsImageInfoEnabled (streams (run (hw_example False True True) [Op_EnableImageInfo True]))
      \<and> \<not> IsMotionDatasEnabled (motions (run (hw_example False True True) [Op_EnableImageInfo True]))
      \<and> \<not> IsHidTracking (channels (run (hw_example False True True) [Op_EnableImageInfo True]))
      \<and> \<not> IsHidAvaliable (channels (run (hw_example False True True) [Op_EnableImageInfo True]))"
    by code_simp
  have d: "IsImageInfoEnabled (streams (run (hw_example True True True)
         [Op_EnableImageInfo True, Op_Open (OpenParams 1), Op_Close]))
      \<and> \<not> IsMotionDatasEnabled (motions (run (hw_example True True True)
         [Op_EnableImageInfo True, Op_Open (OpenParams 1), Op_Close]))
      \<and> \<not> IsHidTracking (channels (run (hw_example True True True)
         [Op_EnableImageInfo True, Op_Open (OpenParams 1), Op_Close]))
      \<and> IsHidAvaliable (channels (run (hw_example True True True)
         [Op_EnableImageInfo True, Op_Open (OpenParams 1), Op_Close]))
      \<and> fst (StartHidTracking (channels (run (hw_example True True True)
         [Op_EnableImageInfo True, Op_Open (OpenParams 1), Op_Close])))"
    by code_simp
  show ?thesis
    using a b c d
      StartDataTracking_six_steps [of "run (hw_example True True True) []"]
      StartDataTracking_six_steps [of "run (hw_example True True True) [Op_EnableMotionDatas 10]"]
      StartDataTracking_six_steps [of "run (hw_example False True True) [Op_EnableImageInfo True]"]
      StartDataTracking_six_steps [of "run (hw_example True True True)
         [Op_EnableImageInfo True, Op_Open (OpenParams 1), Op_Close]"]
    by simp
qed

subsection \<open>C2: when tracking is active\<close>




subsection \<open>C3: which toggles re-evaluate tracking\<close>

text \<open>
  Claim C3, as stated: each of \<^verbatim>\<open>EnableImageInfo\<close>, \<^verbatim>\<open>EnableStreamData\<close> and
  \<^verbatim>\<open>EnableMotionDatas\<close> sets its flag and then invokes \<^verbatim>\<open>StartDataTracking\<close>. It fails for
  \<^verbatim>\<open>EnableStreamData\<close>: with inertial data enabled, \<^verbatim>\<open>StartDataTracking\<close> would register
  the inertial-sample callback again, and \<^verbatim>\<open>EnableStreamData\<close> makes no such call.
\<close>

theorem EnableStreamData_counterexample:
  "EnableStreamData (ImageType 0) (run (hw_example True True True) [Op_EnableMotionDatas 10])
   \<noteq> snd (StartDataTracking
            (called (Call_Streams_EnableStreamData (ImageType 0))
               ((run (hw_example True True True) [Op_EnableMotionDatas 10])
                  \<lparr>streams := Streams_EnableStreamData (ImageType 0)
                     (streams (run (hw_example True True True) [Op_EnableMotionDatas 10]))\<rparr>)))"
proof -
  have "calls (EnableStreamData (ImageType 0) (run (hw_example True True True) [Op_EnableMotionDatas 10]))
   \<noteq> calls (snd (StartDataTracking
            (called (Call_Streams_EnableStreamData (ImageType 0))
               ((run (hw_example True True True) [Op_EnableMotionDatas 10])
                  \<lparr>streams := Streams_EnableStreamData (ImageType 0)
                     (streams (run (hw_example True True True) [Op_EnableMotionDatas 10]))\<rparr>))))"
    by code_simp
  then show ?thesis by metis
qed

text \<open>
  Claim C3, amended. \<^verbatim>\<open>EnableImageInfo\<close> and \<^verbatim>\<open>EnableMotionDatas\<close> set their flag on the
  collaborator and then invoke \<^verbatim>\<open>StartDataTracking\<close>, which therefore sees the flag set
  and registers the matching callback. \<^verbatim>\<open>EnableStreamData\<close> only records the image type
  with the stream collaborator: it makes no other call and leaves the side channel as it
  was.
\<close>

theorem toggles_reevaluate_tracking:
  "EnableImageInfo sync s =
     snd (StartDataTracking (called (Call_Streams_EnableImageInfo sync)
            (s\<lparr>streams := Streams_EnableImageInfo sync (streams s)\<rparr>)))
   \<and> IsImageInfoEnabled (streams (called (Call_Streams_EnableImageInfo sync)
            (s\<lparr>streams := Streams_EnableImageInfo sync (streams s)\<rparr>)))
   \<and> calls (EnableImageInfo sync s) =
       calls s @ [Call_Streams_EnableImageInfo sync]
       @ (if IsMotionDatasEnabled (motions s) then [Call_SetImuDataCallback] else [])
       @ [Call_SetImgInfoCallback]
       @ (if \<not> IsHidTracking (channels s) \<and> IsHidAvaliable (channels s)
          then [Call_StartHidTracking] else [])
   \<and> EnableMotionDatas max_size s =
     snd (StartDataTracking (called (Call_Motions_EnableMotionDatas max_size)
            (s\<lparr>motions := Motions_EnableMotionDatas max_size (motions s)\<rparr>)))
   \<and> IsMotionDatasEnabled (motions (called (Call_Motions_EnableMotionDatas max_size)
            (s\<lparr>motions := Motions_EnableMotionDatas max_size (motions s)\<rparr>)))
   \<and> calls (EnableMotionDatas max_size s) =
       calls s @ [Call_Motions_EnableMotionDatas max_size, Call_SetImuDataCallback]
       @ (if IsImageInfoEnabled (streams s) then [Call_SetImgInfoCallback] else [])
       @ (if \<not> IsHidTracking (channels s) \<and> IsHidAvaliable (channels s)
          then [Call_StartHidTracking] else [])
   \<and> calls (EnableStreamData t s) = calls s @ [Call_Streams_EnableStreamData t]
   \<and> channels (EnableStreamData t s) = channels s
   \<and> stream_data_enabled (streams (EnableStreamData t s)) = t # stream_data_enabled (streams s)"
  by (simp add: EnableImageInfo_def EnableMotionDatas_def EnableStreamData_def SDT_calls
      tracking_wanted_def called_def Streams_EnableImageInfo_def Motions_EnableMotionDatas_def
      Streams_EnableStreamData_def IsImageInfoEnabled_def IsMotionDatasEnabled_def)

subsection \<open>C4: stream intrinsics\<close>

text \<open>
  Claim C4. For a raw calibration record with combined width \<open>W\<close>, height \<open>H\<close>, camera
  matrices of 9 elements and distortion vectors of at least 5, \<^verbatim>\<open>GetStreamIntrinsics\<close>
  returns for each lens the width \<open>W div 2\<close>, the height \<open>H\<close>, \<open>fx\<close>, \<open>fy\<close>, \<open>cx\<close>, \<open>cy\<close> from
  the offsets 0, 4, 2, 5 of that lens's own matrix, and the first 5 coefficients of that
  lens's own distortion vector; the result is also what the cache holds afterwards.
\<close>

theorem GetStreamIntrinsics_values:
  fixes s :: "'a::zero CameraPrivate"
  assumes "length (CamMat1 (GetCameraCalibration stream_mode s)) = 9"
    and "length (CamMat2 (GetCameraCalibration stream_mode s)) = 9"
    and "5 \<le> length (CamDist1 (GetCameraCalibration stream_mode s))"
    and "5 \<le> length (CamDist2 (GetCameraCalibration stream_mode s))"
    and "cache_arrays_ok s"
  shows "fst (GetStreamIntrinsics stream_mode s) =
     \<lparr>left = \<lparr>width = InImgWidth (GetCameraCalibration stream_mode s) div 2,
               height = InImgHeight (GetCameraCalibration stream_mode s),
               fx = CamMat1 (GetCameraCalibration stream_mode s) ! 0,
               fy = CamMat1 (GetCameraCalibration stream_mode s) ! 4,
               cx = CamMat1 (GetCameraCalibration stream_mode s) ! 2,
               cy = CamMat1 (GetCameraCalibration stream_mode s) ! 5,
               coeffs = take 5 (CamDist1 (GetCameraCalibration stream_mode s))\<rparr>,
      right = \<lparr>width = InImgWidth (GetCameraCalibration stream_mode s) div 2,
                height = InImgHeight (GetCameraCalibration stream_mode s),
                fx = CamMat2 (GetCameraCalibration stream_mode s) ! 0,
                fy = CamMat2 (GetCameraCalibration stream_mode s) ! 4,
                cx = CamMat2 (GetCameraCalibration stream_mode s) ! 2,
                cy = CamMat2 (GetCameraCalibration stream_mode s) ! 5,
                coeffs = take 5 (CamDist2 (GetCameraCalibration stream_mode s))\<rparr>\<rparr>
     \<and> stream_intrinsics (snd (GetStreamIntrinsics stream_mode s))
         = Some (fst (GetStreamIntrinsics stream_mode s))"
proof (cases "stream_intrinsics s")
  case None
  then show ?thesis
    using assms(3,4)
    by (simp add: GetStreamIntrinsics_def Let_def StreamIntrinsics_zero_def
        copy_coeffs_take zero_arrays CameraIntrinsics_zero_def)
next
  case (Some si)
  with assms(5) have "length (coeffs (left si)) = 5" "length (coeffs (right si)) = 5"
    by (simp_all add: cache_arrays_ok_def)
  then show ?thesis
    using assms(3,4) Some
    by (cases si, cases "left si", cases "right si")
       (simp add: GetStreamIntrinsics_def Let_def copy_coeffs_take)
qed

theorem GetStreamIntrinsics_values_witness:
  "length (CamMat1 (GetCameraCalibration (StreamMode 2) (CameraPrivate_new (hw_example True True True)))) = 9
   \<and> length (CamMat2 (GetCameraCalibration (StreamMode 2) (CameraPrivate_new (hw_example True True True)))) = 9
   \<and> 5 \<le> length (CamDist1 (GetCameraCalibration (StreamMode 2) (CameraPrivate_new (hw_example True True True))))
   \<and> 5 \<le> length (CamDist2 (GetCameraCalibration (StreamMode 2) (CameraPrivate_new (hw_example True True True))))
   \<and> cache_arrays_ok (CameraPrivate_new (hw_example True True True))
   \<and> fst (GetStreamIntrinsics (StreamMode 2) (CameraPrivate_new (hw_example True True True))) =
     \<lparr>left = \<lparr>width = 1280, height = 720, fx = 1040, fy = 1041, cx = 652, cy = 355,
               coeffs = [11, 12, 13, 14, 15]\<rparr>,
      right = \<lparr>width = 1280, height = 720, fx = 1038, fy = 1039, cx = 631, cy = 362,
               coeffs = [21, 22, 23, 24, 25]\<rparr>\<rparr>"
proof -
  have c: "GetCameraCalibration (StreamMode 2) (CameraPrivate_new (hw_example True True True))
      = calibration_example"
    by code_simp
  have h1: "length (CamMat1 (GetCameraCalibration (StreamMode 2) (CameraPrivate_new (hw_example True True True)))) = 9"
    and h2: "length (CamMat2 (GetCameraCalibration (StreamMode 2) (CameraPrivate_new (hw_example True True True)))) = 9"
    and h3: "5 \<le> length (CamDist1 (GetCameraCalibration (StreamMode 2) (CameraPrivate_new (hw_example True True True))))"
    and h4: "5 \<le> length (CamDist2 (GetCameraCalibration (StreamMode 2) (CameraPrivate_new (hw_example True True True))))"
    by (simp_all add: c calibration_example_def)
  have h5: "cache_arrays_ok (CameraPrivate_new (hw_example True True True))"
    by code_simp
  show ?thesis
    using h1 h2 h3 h4 h5 GetStreamIntrinsics_values [OF h1 h2 h3 h4 h5]
    by (simp add: c calibration_example_def)
qed

subsection \<open>C5: Open on an opened device\<close>

text \<open>
  Claim C5. For every parameter value, \<^verbatim>\<open>Open\<close> on an opened device returns \<^verbatim>\<open>SUCCESS\<close> and
  leaves the whole state as it was: the transport's open is not called and nothing else
  happens. The same holds for any list of further \<^verbatim>\<open>Open\<close> calls.
\<close>

theorem Open_when_opened:
  "IsOpened s \<Longrightarrow> Open params s = (SUCCESS, s) \<and> Open_all ps s = (map (\<lambda>p. SUCCESS) ps, s)"
proof -
  assume o: "IsOpened s"
  then have one: "\<And>p. Open p s = (SUCCESS, s)"
    by (simp add: Open_def)
  have "Open_all ps s = (map (\<lambda>p. SUCCESS) ps, s)"
    by (induction ps) (simp_all add: one)
  with one show ?thesis by simp
qed

theorem Open_when_opened_witness:
  "IsOpened (run (hw_example True True True) [Op_Open (OpenParams 1)])
   \<and> Open (OpenParams 0) (run (hw_example True True True) [Op_Open (OpenParams 1)])
       = (SUCCESS, run (hw_example True True True) [Op_Open (OpenParams 1)])
   \<and> Open_all [OpenParams 2, OpenParams 0, OpenParams 1]
        (run (hw_example True True True) [Op_Open (OpenParams 1)])
       = ([SUCCESS, SUCCESS, SUCCESS], run (hw_example True True True) [Op_Open (OpenParams 1)])"
proof -
  have o: "IsOpened (run (hw_example True True True) [Op_Open (OpenParams 1)])"
    by code_simp
  show ?thesis
    using o Open_when_opened [OF o, of "OpenParams 0" "[OpenParams 2, OpenParams 0, OpenParams 1]"]
    by simp
qed

subsection \<open>C6: the error code of a failed Open\<close>

text \<open>
  Claim C6 says that \<^verbatim>\<open>Open\<close> on a device that is not opened returns the open-failure
  code when the transport's open fails. On the concrete device, which is not opened
  after construction and rejects \<open>OpenParams 0\<close>, \<^verbatim>\<open>Open\<close> calls the transport once and
  returns \<^verbatim>\<open>ERROR_FAILURE\<close>, not \<^verbatim>\<open>ERROR_CAMERA_OPEN_FAILED\<close>: the early return on
  \<^verbatim>\<open>!ok\<close> leaves the \<^verbatim>\<open>else\<close> branch that names the open-failure code unreachable.
\<close>

theorem Open_transport_failure_code:
  "\<not> IsOpened (CameraPrivate_new (hw_example True True True))
   \<and> \<not> fst (Device_Open (OpenParams 0) (device (CameraPrivate_new (hw_example True True True))))
   \<and> fst (Open (OpenParams 0) (CameraPrivate_new (hw_example True True True))) = ERROR_FAILURE
   \<and> fst (Open (OpenParams 0) (CameraPrivate_new (hw_example True True True))) \<noteq> ERROR_CAMERA_OPEN_FAILED
   \<and> calls (snd (Open (OpenParams 0) (CameraPrivate_new (hw_example True True True))))
       = calls (CameraPrivate_new (hw_example True True True)) @ [Call_Device_Open (OpenParams 0)]"
  by code_simp

text \<open>
  The same holds in general: a failed transport open on a device that is not opened
  gives \<^verbatim>\<open>ERROR_FAILURE\<close> after a single call of the transport, and no call of \<^verbatim>\<open>Open\<close>
  returns \<^verbatim>\<open>ERROR_CAMERA_OPEN_FAILED\<close>.
\<close>

lemma Open_failure_is_generic:
  "\<not> IsOpened s \<Longrightarrow> \<not> fst (Device_Open params (device s)) \<Longrightarrow>
     fst (Open params s) = ERROR_FAILURE
     \<and> calls (snd (Open params s)) = calls s @ [Call_Device_Open params]"
  by (cases "Device_Open params (device s)") (simp add: Open_def Let_def called_def)

lemma Open_never_open_failed: "fst (Open params s) \<noteq> ERROR_CAMERA_OPEN_FAILED"
  by (simp add: Open_def Let_def split: prod.splits)

subsection \<open>C7: when the descriptor cache exists\<close>

text \<open>
  Claim C7 says that the descriptor cache is created only on a successful read: after
  construction it is absent whenever the side channel is unavailable or the combined
  read reported failure, so that \<^verbatim>\<open>GetDescriptor\<close> returns the empty string. The code
  breaks this on a failed read. On the concrete device with the side channel available
  and a failing read, the cache is present after construction and holds the untouched
  buffer, and \<^verbatim>\<open>GetDescriptor\<close> formats its fields instead of taking the path of its null
  guard: \<^verbatim>\<open>NOMINAL_BASELINE\<close> gives \<open>''0''\<close>. \<^verbatim>\<open>ReadDeviceFlash\<close> allocates \<^verbatim>\<open>descriptors_\<close>
  before the read, and the early return after the failed read does not reset it. The
  sibling paths do what the claim says: the early return for an unavailable channel
  leaves the cache absent, and the motion caches are created only on success.
\<close>

theorem descriptors_after_failed_read:
  "IsAvaliable (channels (CameraPrivate_new (hw_example True True False)))
   \<and> \<not> fst (GetFiles (channels (CameraPrivate_new (hw_example True True False))))
   \<and> descriptors (CameraPrivate_new (hw_example True True False)) = Some Descriptors_default
   \<and> descriptors (CameraPrivate_new (hw_example True True False)) \<noteq> None
   \<and> GetDescriptor formatters_example (CameraPrivate_new (hw_example True True False)) NOMINAL_BASELINE
       = ''0''
   \<and> GetDescriptor formatters_example (CameraPrivate_new (hw_example True True False)) NOMINAL_BASELINE
       \<noteq> []
   \<and> motion_intrinsics (CameraPrivate_new (hw_example True True False)) = None
   \<and> motion_extrinsics (CameraPrivate_new (hw_example True True False)) = None
   \<and> descriptors (CameraPrivate_new (hw_example False True False)) = None"
  by code_simp

text \<open>
  In general, a failed read on an available side channel leaves in the cache whatever
  the read left in the buffer, and creates no motion cache.
\<close>

lemma failed_read_keeps_buffer:
  "hw_avaliable hw \<Longrightarrow> \<not> hw_files_ok hw \<Longrightarrow>
     descriptors (CameraPrivate_new hw) = Some (hw_files_descriptors hw)
     \<and> motion_intrinsics (CameraPrivate_new hw) = None
     \<and> motion_extrinsics (CameraPrivate_new hw) = None"
  by (simp add: CameraPrivate_new_def Init_def ReadDeviceFlash_def Let_def Channels_new_def
      GetFiles_def called_def IsAvaliable_def split: prod.splits)

text \<open>
  The two cases in which the code does what the claim says: with the side channel
  unavailable the cache is absent and \<^verbatim>\<open>GetDescriptor\<close> returns the empty string for every
  tag; with the side channel available and a successful read the cache holds the
  descriptors that were read.
\<close>

lemma descriptors_after_construction:
  "(\<not> hw_avaliable hw \<longrightarrow>
      descriptors (CameraPrivate_new hw) = None
      \<and> GetDescriptor f (CameraPrivate_new hw) desc = [])
   \<and> (hw_avaliable hw \<and> hw_files_ok hw \<longrightarrow>
      descriptors (CameraPrivate_new hw) = Some (hw_files_descriptors hw))"
  by (simp add: new_descriptors GetDescriptor_def)

lemma descriptors_after_construction_example:
  "\<not> hw_avaliable (hw_example False True True)
   \<and> descriptors (CameraPrivate_new (hw_example False True True)) = None
   \<and> GetDescriptor formatters_example (CameraPrivate_new (hw_example False True True)) SERIAL_NUMBER = []
   \<and> hw_avaliable (hw_example True True True)
   \<and> hw_files_ok (hw_example True True True)
   \<and> descriptors (CameraPrivate_new (hw_example True True True)) = Some descriptors_example"
proof -
  have a: "\<not> hw_avaliable (hw_example False True True)"
    by (simp add: hw_example_def)
  have b: "hw_avaliable (hw_example True True True) \<and> hw_files_ok (hw_example True True True)"
    by (simp add: hw_example_def)
  have d: "hw_files_descriptors (hw_example True True True) = descriptors_example"
    by (simp add: hw_example_def)
  show ?thesis
    using a b d
      descriptors_after_construction [of "hw_example False True True" formatters_example SERIAL_NUMBER]
      descriptors_after_construction [of "hw_example True True True" formatters_example SERIAL_NUMBER]
    by simp
qed

subsection \<open>C8: GetDescriptor is a lookup with a default\<close>



subsection \<open>C9: Close\<close>

text \<open>
  Claim C9. On a device that is not opened \<^verbatim>\<open>Close\<close> changes nothing, however often it
  is called: the transport is not closed and tracking is not stopped. On an opened
  device it stops tracking if tracking is active, notifies the stream collaborator and
  closes the transport, in that order, and tracking is not active afterwards. After
  \<^verbatim>\<open>Close\<close> the device is not opened, so a second \<^verbatim>\<open>Close\<close>, or the destructor, which only
  calls \<^verbatim>\<open>Close\<close>, changes nothing more.
\<close>

theorem Close_behaviour:
  "(\<not> IsOpened s \<longrightarrow> Close s = s \<and> (Close ^^ n) s = s)
   \<and> (IsOpened s \<longrightarrow>
        calls (Close s) =
          calls s @ (if IsHidTracking (channels s) then [Call_StopHidTracking] else [])
          @ [Call_Streams_OnCameraClose, Call_Device_Close]
      \<and> \<not> IsHidTracking (channels (Close s)))
   \<and> \<not> IsOpened (Close s)
   \<and> Close (Close s) = Close s
   \<and> CameraPrivate_delete s = Close s
   \<and> CameraPrivate_delete (Close s) = Close s"
proof -
  have rep: "\<not> IsOpened s \<Longrightarrow> (Close ^^ n) s = s"
    by (induction n) (simp_all add: Close_not_opened)
  have stop: "IsOpened s \<Longrightarrow> \<not> IsHidTracking (channels (Close s))"
    by (simp add: IsHidTracking_def IsOpened_def Device_IsOpened_def Close_obs)
  have twice: "Close (Close s) = Close s"
    by (rule Close_not_opened [OF Close_closed])
  show ?thesis
    using rep stop twice Close_closed [of s]
    by (simp add: Close_not_opened Close_calls CameraPrivate_delete_def)
qed

theorem Close_behaviour_witness:
  "\<not> IsOpened (CameraPrivate_new (hw_example True True True))
   \<and> (Close ^^ 3) (CameraPrivate_new (hw_example True True True))
       = CameraPrivate_new (hw_example True True True)
   \<and> IsOpened (run (hw_example True True True) [Op_EnableMotionDatas 10, Op_Open (OpenParams 1)])
   \<and> calls (Close (run (hw_example True True True) [Op_EnableMotionDatas 10, Op_Open (OpenParams 1)]))
       = [Call_GetFiles, Call_Motions_SetMotionIntrinsics, Call_Motions_EnableMotionDatas 10,
          Call_SetImuDataCallback, Call_StartHidTracking, Call_Device_Open (OpenParams 1),
          Call_SetImuDataCallback, Call_Streams_OnCameraOpen,
          Call_StopHidTracking, Call_Streams_OnCameraClose, Call_Device_Close]"
proof -
  have a: "\<not> IsOpened (CameraPrivate_new (hw_example True True True))"
    by code_simp
  have b: "IsOpened (run (hw_example True True True) [Op_EnableMotionDatas 10, Op_Open (OpenParams 1)])"
    by code_simp
  have c: "calls (run (hw_example True True True) [Op_EnableMotionDatas 10, Op_Open (OpenParams 1)])
      = [Call_GetFiles, Call_Motions_SetMotionIntrinsics, Call_Motions_EnableMotionDatas 10,
          Call_SetImuDataCallback, Call_StartHidTracking, Call_Device_Open (OpenParams 1),
          Call_SetImuDataCallback, Call_Streams_OnCameraOpen]"
    by code_simp
  have d: "IsHidTracking (channels (run (hw_example True True True) [Op_EnableMotionDatas 10, Op_Open (OpenParams 1)]))"
    by code_simp
  show ?thesis
    using a b c d
      Close_behaviour [of "CameraPrivate_new (hw_example True True True)" 3]
      Close_behaviour [of "run (hw_example True True True) [Op_EnableMotionDatas 10, Op_Open (OpenParams 1)]" 3]
    by simp
qed

subsection \<open>C10: tracking does not depend on the open state\<close>

text \<open>
  Claim C10. \<^verbatim>\<open>StartDataTracking\<close> never consults the open state of the device: replacing
  the device by any other changes neither its result nor what it does to the rest of the
  state. In particular, when the side channel is available for tracking and not
  tracking yet, \<^verbatim>\<open>EnableMotionDatas\<close> and \<^verbatim>\<open>EnableImageInfo\<close> register their callback and
  request the start of tracking at once, whether or not the device was ever opened, and
  the channel tracks afterwards exactly when that request succeeds.
\<close>

theorem StartDataTracking_ignores_open_state:
  "StartDataTracking (s\<lparr>device := d\<rparr>) =
     (fst (StartDataTracking s), (snd (StartDataTracking s))\<lparr>device := d\<rparr>)
   \<and> (IsHidAvaliable (channels s) \<and> \<not> IsHidTracking (channels s) \<longrightarrow>
        calls (EnableMotionDatas max_size s) =
          calls s @ [Call_Motions_EnableMotionDatas max_size, Call_SetImuDataCallback]
          @ (if IsImageInfoEnabled (streams s) then [Call_SetImgInfoCallback] else [])
          @ [Call_StartHidTracking]
      \<and> imu_data_callback (channels (EnableMotionDatas max_size s)) = Some Motions_OnImuDataCallback
      \<and> IsHidTracking (channels (EnableMotionDatas max_size s)) = fst (StartHidTracking (channels s))
      \<and> calls (EnableImageInfo sync s) =
          calls s @ [Call_Streams_EnableImageInfo sync]
          @ (if IsMotionDatasEnabled (motions s) then [Call_SetImuDataCallback] else [])
          @ [Call_SetImgInfoCallback, Call_StartHidTracking]
      \<and> img_info_callback (channels (EnableImageInfo sync s)) = Some Streams_OnImageInfoCallback
      \<and> IsHidTracking (channels (EnableImageInfo sync s)) = fst (StartHidTracking (channels s)))"
  by (simp add: SDT_device_irrelevant EnableMotionDatas_def EnableImageInfo_def tracking_defs Let_def
      Motions_EnableMotionDatas_def Streams_EnableImageInfo_def)

theorem StartDataTracking_ignores_open_state_witness:
  "\<not> IsOpened (CameraPrivate_new (hw_example True True True))
   \<and> IsHidAvaliable (channels (CameraPrivate_new (hw_example True True True)))
   \<and> \<not> IsHidTracking (channels (CameraPrivate_new (hw_example True True True)))
   \<and> calls (EnableMotionDatas 10 (CameraPrivate_new (hw_example True True True))) =
       [Call_GetFiles, Call_Motions_SetMotionIntrinsics, Call_Motions_EnableMotionDatas 10,
        Call_SetImuDataCallback, Call_StartHidTracking]
   \<and> IsHidTracking (channels (EnableMotionDatas 10 (CameraPrivate_new (hw_example True True True))))
   \<and> calls (EnableImageInfo False (CameraPrivate_new (hw_example True True True))) =
       [Call_GetFiles, Call_Motions_SetMotionIntrinsics, Call_Streams_EnableImageInfo False,
        Call_SetImgInfoCallback, Call_StartHidTracking]
   \<and> IsHidTracking (channels (EnableImageInfo False (CameraPrivate_new (hw_example True True True))))"
proof -
  have a: "\<not> IsOpened (CameraPrivate_new (hw_example True True True))"
    by code_simp
  have b: "IsHidAvaliable (channels (CameraPrivate_new (hw_example True True True)))
      \<and> \<not> IsHidTracking (channels (CameraPrivate_new (hw_example True True True)))"
    by code_simp
  have c: "calls (CameraPrivate_new (hw_example True True True))
      = [Call_GetFiles, Call_Motions_SetMotionIntrinsics]"
    by code_simp
  have d: "\<not> IsImageInfoEnabled (streams (CameraPrivate_new (hw_example True True True)))
      \<and> \<not> IsMotionDatasEnabled (motions (CameraPrivate_new (hw_example True True True)))"
    by code_simp
  have e: "fst (StartHidTracking (channels (CameraPrivate_new (hw_example True True True))))"
    by code_simp
  show ?thesis
    using a b c d e
      StartDataTracking_ignores_open_state
        [where s = "CameraPrivate_new (hw_example True True True)"
           and d = "device (CameraPrivate_new (hw_example True True True))"
           and max_size = 10 and sync = False]
    by simp
qed

end
